theory Spec2Isabelle
  imports Complex_Main
begin

section \<open>The autoscaler of \<open>src/autoscaler.py\<close>\<close>

text \<open>
  The class \<open>MicroserviceAutoscaler\<close> reads three metrics of a service from Prometheus,
  reads the replica count of the deployment from Kubernetes, and scales the deployment out,
  in, or not at all. The two clients are external; each call of a client either returns a
  value or raises, and every \<open>try\<close>/\<open>except Exception\<close> of the source is a case
  distinction on that outcome.

  Numbers. Replica counts, \<open>latency_threshold_ms\<close>, \<open>rps_threshold\<close>,
  \<open>min_replicas\<close> and \<open>MAX_REPLICAS\<close> are Python integers (\<open>int\<close>). The metrics,
  \<open>cpu_threshold\<close> and the two factors are Python floats, that is IEEE-754 doubles.
  The decision is embedded twice. \<open>adjust_replicas_branch\<close> computes on exact reals, with
  the literal \<open>0.69\<close> as \<open>69 / 100\<close>; it serves the properties that rounding does not
  touch (which branch is taken away from the rounded bounds, monotonicity, clamping).
  \<open>adjust_replicas_branch_double\<close> follows the interpreter: every sum and product is
  rounded to the nearest double, infinities and NaN are values, and \<open>math.ceil\<close>,
  \<open>math.floor\<close> and the conversion of an integer operand may raise.
\<close>

subsection \<open>Outcomes of calls that may raise\<close>

datatype 'a outcome = Raises | Returns 'a

subsection \<open>Configuration (\<open>__init__\<close>)\<close>

record autoscaler =
  latency_threshold_ms :: int
  cpu_threshold :: real
  rps_threshold :: int
  scale_out_factor :: real
  scale_in_factor :: real
  min_replicas :: int

text \<open>
  \<open>MAX_REPLICAS\<close> is not a field of the object: \<open>scale_deployment\<close> evaluates
  \<open>int(os.getenv("MAX_REPLICAS", 50))\<close> at every call. The environment is represented by
  the outcome of that expression: \<open>Returns m\<close>, or \<open>Raises\<close> when \<open>int\<close> rejects the
  text (\<open>ValueError\<close>).
\<close>

type_synonym environ = "int outcome"

definition default_autoscaler :: autoscaler where
  "default_autoscaler =
     \<lparr> latency_threshold_ms = 300, cpu_threshold = 7 / 10, rps_threshold = 200,
       scale_out_factor = 2 / 10, scale_in_factor = 15 / 100, min_replicas = 2 \<rparr>"

definition default_environ :: environ where
  "default_environ = Returns 50"

subsection \<open>The Prometheus client\<close>

text \<open>
  The three query texts differ in their template and in the service name spliced in.
  A query result is a list of rows; \<open>float(result[0]['value'][1])\<close> either yields a
  number or raises (a missing key, a short list, text that is no number), so a row is the
  outcome of that expression.
\<close>

datatype metric_query = LatencyQuery string | CpuQuery string | RpsQuery string

type_synonym row = "real outcome"

type_synonym prometheus = "metric_query \<Rightarrow> row list outcome"

text \<open>One assignment of the \<open>try\<close> block:
  \<open>float(result[0]['value'][1]) if result else 0\<close> after \<open>custom_query\<close>.\<close>

definition query_value :: "prometheus \<Rightarrow> metric_query \<Rightarrow> real outcome" where
  "query_value prom q =
     (case prom q of
        Raises \<Rightarrow> Raises
      | Returns result \<Rightarrow>
          (case result of
             [] \<Rightarrow> Returns 0
           | r # _ \<Rightarrow> r))"

text \<open>The body of the \<open>try\<close> block: the three queries in order, the first raise ends it.\<close>

definition get_metrics_try :: "prometheus \<Rightarrow> string \<Rightarrow> (real \<times> real \<times> real) outcome" where
  "get_metrics_try prom service_name =
     (case query_value prom (LatencyQuery service_name) of
        Raises \<Rightarrow> Raises
      | Returns current_latency \<Rightarrow>
          (case query_value prom (CpuQuery service_name) of
             Raises \<Rightarrow> Raises
           | Returns current_cpu \<Rightarrow>
               (case query_value prom (RpsQuery service_name) of
                  Raises \<Rightarrow> Raises
                | Returns current_rps \<Rightarrow>
                    Returns (current_latency, current_cpu, current_rps))))"

definition get_metrics_from_prometheus :: "prometheus \<Rightarrow> string \<Rightarrow> real \<times> real \<times> real" where
  "get_metrics_from_prometheus prom service_name =
     (case get_metrics_try prom service_name of
        Raises \<Rightarrow> (0, 0, 0)
      | Returns m \<Rightarrow> m)"

subsection \<open>The Kubernetes client\<close>

text \<open>
  A deployment object carries \<open>spec.replicas\<close> and \<open>status\<close>; \<open>status\<close> may be absent
  (\<open>None\<close>), and so may \<open>status.replicas\<close>. The cluster maps (name, namespace) to the
  stored object. A read raises when the object is missing or the API is unreachable; a
  patch raises under the same conditions and otherwise stores the body it was given.
\<close>

datatype deployment_status = DeploymentStatus (status_replicas: "int option")

record deployment =
  spec_replicas :: "int option"
  status :: "deployment_status option"

record apps_v1 =
  deployments :: "string \<times> string \<rightharpoonup> deployment"
  read_raises :: bool
  patch_raises :: bool

definition read_namespaced_deployment :: "apps_v1 \<Rightarrow> string \<Rightarrow> string \<Rightarrow> deployment outcome" where
  "read_namespaced_deployment api name namespace =
     (if read_raises api then Raises
      else case deployments api (name, namespace) of
             None \<Rightarrow> Raises
           | Some d \<Rightarrow> Returns d)"

definition patch_namespaced_deployment ::
    "apps_v1 \<Rightarrow> string \<Rightarrow> string \<Rightarrow> deployment \<Rightarrow> apps_v1 outcome" where
  "patch_namespaced_deployment api name namespace body =
     (if patch_raises api then Raises
      else case deployments api (name, namespace) of
             None \<Rightarrow> Raises
           | Some _ \<Rightarrow> Returns (api\<lparr>deployments := (deployments api)((name, namespace) \<mapsto> body)\<rparr>))"

text \<open>
  \<open>deployment.status.replicas if deployment.status.replicas else 0\<close>: an absent
  \<open>status\<close> raises \<open>AttributeError\<close>, which the handler turns into 0; \<open>None\<close> and 0 are
  both falsy.
\<close>

definition get_current_replicas :: "apps_v1 \<Rightarrow> string \<Rightarrow> string \<Rightarrow> int" where
  "get_current_replicas api deployment_name namespace =
     (case read_namespaced_deployment api deployment_name namespace of
        Raises \<Rightarrow> 0
      | Returns d \<Rightarrow>
          (case status d of
             None \<Rightarrow> 0
           | Some st \<Rightarrow>
               (case status_replicas st of
                  None \<Rightarrow> 0
                | Some n \<Rightarrow> if n \<noteq> 0 then n else 0)))"

text \<open>Lines 71 and 72 of the source, once \<open>MAX_REPLICAS\<close> has been parsed.\<close>

definition clamp_replicas :: "autoscaler \<Rightarrow> int \<Rightarrow> int \<Rightarrow> int" where
  "clamp_replicas self max_replicas replicas =
     min max_replicas (max (min_replicas self) replicas)"

text \<open>
  \<open>scale_deployment\<close> returns its boolean and the cluster after the call. Any raise inside
  the \<open>try\<close> block (the read, the parse of \<open>MAX_REPLICAS\<close>, the patch) gives \<open>False\<close>
  and leaves the cluster as it was.
\<close>

definition scale_deployment ::
    "autoscaler \<Rightarrow> environ \<Rightarrow> apps_v1 \<Rightarrow> string \<Rightarrow> int \<Rightarrow> string \<Rightarrow> bool \<times> apps_v1" where
  "scale_deployment self env api deployment_name replicas namespace =
     (case read_namespaced_deployment api deployment_name namespace of
        Raises \<Rightarrow> (False, api)
      | Returns d \<Rightarrow>
          (case env of
             Raises \<Rightarrow> (False, api)
           | Returns max_replicas \<Rightarrow>
               (let replicas' = clamp_replicas self max_replicas replicas;
                    d' = d\<lparr>spec_replicas := Some replicas'\<rparr>
                in case patch_namespaced_deployment api deployment_name namespace d' of
                     Raises \<Rightarrow> (False, api)
                   | Returns api' \<Rightarrow> (True, api'))))"

subsection \<open>The decision (\<open>adjust_replicas\<close>)\<close>

text \<open>
  The \<open>if\<close>/\<open>elif\<close>/\<open>else\<close> of \<open>adjust_replicas\<close> takes one of three branches. A
  decision names the branch taken and, for the two scaling branches, the value of
  \<open>new_replicas\<close> handed to \<open>scale_deployment\<close>.
\<close>

datatype decision = ScaleOut int | ScaleIn int | NoChange

definition adjust_replicas_branch :: "autoscaler \<Rightarrow> real \<times> real \<times> real \<Rightarrow> int \<Rightarrow> decision" where
  "adjust_replicas_branch self metrics current_replicas =
     (case metrics of (current_latency, current_cpu, current_rps) \<Rightarrow>
        if current_latency > of_int (latency_threshold_ms self) \<or>
           current_cpu > cpu_threshold self \<or>
           current_rps > of_int (rps_threshold self)
        then ScaleOut \<lceil>of_int current_replicas * (1 + scale_out_factor self)\<rceil>
        else if current_latency < (69 / 100) * of_int (latency_threshold_ms self) \<and>
                current_cpu < (69 / 100) * cpu_threshold self
        then ScaleIn (max (min_replicas self)
                          \<lfloor>of_int current_replicas * (1 - scale_in_factor self)\<rfloor>)
        else NoChange)"


subsection \<open>Python floats\<close>

text \<open>
  A Python float is a finite double, an infinity or NaN. \<open>Finite\<close> carries the value as
  a real; signed zeros are not distinguished (no operation of the source tells them
  apart).
\<close>

datatype pyfloat = Finite real | PosInf | NegInf | NaN

text \<open>\<open>int.bit_length\<close>: the number of binary digits of a natural number.\<close>

fun bit_length :: "nat \<Rightarrow> nat" where
  "bit_length n = (if n = 0 then 0 else Suc (bit_length (n div 2)))"

declare bit_length.simps [simp del]

definition pow2 :: "int \<Rightarrow> real" where
  "pow2 e = (if 0 \<le> e then 2 ^ nat e else 1 / 2 ^ nat (- e))"

text \<open>The binary exponent of a non-zero real: the \<open>e\<close> with \<open>2^e \<le> |x| < 2^(e+1)\<close>.\<close>

definition binade :: "real \<Rightarrow> int" where
  "binade x =
     (if 1 \<le> \<bar>x\<bar> then int (bit_length (nat \<lfloor>\<bar>x\<bar>\<rfloor>)) - 1
      else - int (bit_length (nat (\<lceil>1 / \<bar>x\<bar>\<rceil> - 1))))"

definition round_half_even :: "real \<Rightarrow> int" where
  "round_half_even y =
     (let n = \<lfloor>y\<rfloor>; d = y - of_int n
      in if d < 1 / 2 then n else if 1 / 2 < d then n + 1
         else if even n then n else n + 1)"

text \<open>
  Rounding to the nearest double, ties to even: 53 significant bits, the spacing of the
  subnormal range below \<open>2^-1022\<close>, and an infinity when the rounded magnitude reaches
  \<open>2^1024\<close>.
\<close>

definition round_double :: "real \<Rightarrow> pyfloat" where
  "round_double x =
     (if x = 0 then Finite 0
      else let e = max (binade x) (- 1022) - 52;
               r = of_int (round_half_even (x / pow2 e)) * pow2 e
           in if pow2 1024 \<le> \<bar>r\<bar> then (if 0 < x then PosInf else NegInf)
              else Finite r)"

text \<open>The double denoted by a decimal literal or by \<open>float\<close> of a decimal string.\<close>

definition float_value :: "real \<Rightarrow> real" where
  "float_value q = (case round_double q of Finite r \<Rightarrow> r | _ \<Rightarrow> 0)"

text \<open>
  The conversion of an integer operand in \<open>int * float\<close>: correctly rounded, and
  \<open>OverflowError\<close> when the integer is too large for a double.
\<close>

definition float_of_int :: "int \<Rightarrow> pyfloat outcome" where
  "float_of_int n =
     (case round_double (of_int n) of
        Finite r \<Rightarrow> Returns (Finite r)
      | _ \<Rightarrow> Raises)"

fun float_add :: "pyfloat \<Rightarrow> pyfloat \<Rightarrow> pyfloat" where
  "float_add NaN _ = NaN"
| "float_add _ NaN = NaN"
| "float_add (Finite x) (Finite y) = round_double (x + y)"
| "float_add PosInf NegInf = NaN"
| "float_add NegInf PosInf = NaN"
| "float_add PosInf _ = PosInf"
| "float_add _ PosInf = PosInf"
| "float_add NegInf _ = NegInf"
| "float_add _ NegInf = NegInf"

fun float_neg :: "pyfloat \<Rightarrow> pyfloat" where
  "float_neg (Finite x) = Finite (- x)"
| "float_neg PosInf = NegInf"
| "float_neg NegInf = PosInf"
| "float_neg NaN = NaN"

definition float_sub :: "pyfloat \<Rightarrow> pyfloat \<Rightarrow> pyfloat" where
  "float_sub a b = float_add a (float_neg b)"

text \<open>An infinity times a finite value: NaN for zero, otherwise the infinity of the sign.\<close>

definition signed_inf :: "real \<Rightarrow> pyfloat" where
  "signed_inf s = (if s = 0 then NaN else if 0 < s then PosInf else NegInf)"

fun float_mul :: "pyfloat \<Rightarrow> pyfloat \<Rightarrow> pyfloat" where
  "float_mul NaN _ = NaN"
| "float_mul _ NaN = NaN"
| "float_mul (Finite x) (Finite y) = round_double (x * y)"
| "float_mul (Finite x) PosInf = signed_inf x"
| "float_mul (Finite x) NegInf = signed_inf (- x)"
| "float_mul PosInf (Finite y) = signed_inf y"
| "float_mul NegInf (Finite y) = signed_inf (- y)"
| "float_mul PosInf PosInf = PosInf"
| "float_mul PosInf NegInf = NegInf"
| "float_mul NegInf PosInf = NegInf"
| "float_mul NegInf NegInf = PosInf"

text \<open>
  Comparisons are exact and false whenever NaN takes part. Python compares a float with
  an integer exactly as well, so an integer threshold \<open>k\<close> enters a comparison as
  \<open>Finite (of_int k)\<close>, unrounded.
\<close>

fun float_lt :: "pyfloat \<Rightarrow> pyfloat \<Rightarrow> bool" where
  "float_lt NaN _ = False"
| "float_lt _ NaN = False"
| "float_lt (Finite x) (Finite y) = (x < y)"
| "float_lt _ NegInf = False"
| "float_lt PosInf _ = False"
| "float_lt NegInf _ = True"
| "float_lt _ PosInf = True"

definition float_gt :: "pyfloat \<Rightarrow> pyfloat \<Rightarrow> bool" where
  "float_gt a b = float_lt b a"

text \<open>\<open>math.ceil\<close> and \<open>math.floor\<close> raise on an infinity (\<open>OverflowError\<close>) and on NaN
  (\<open>ValueError\<close>).\<close>

definition math_ceil :: "pyfloat \<Rightarrow> int outcome" where
  "math_ceil a = (case a of Finite x \<Rightarrow> Returns \<lceil>x\<rceil> | _ \<Rightarrow> Raises)"

definition math_floor :: "pyfloat \<Rightarrow> int outcome" where
  "math_floor a = (case a of Finite x \<Rightarrow> Returns \<lfloor>x\<rfloor> | _ \<Rightarrow> Raises)"

subsection \<open>The decision in double arithmetic\<close>

text \<open>
  The same \<open>if\<close>/\<open>elif\<close>/\<open>else\<close>, operation by operation. The real-valued fields of
  the configuration are the values of its doubles. \<open>adjust_replicas\<close> has no handler, so
  a raise in a branch leaves the method: the result is \<open>Raises\<close>.
\<close>

definition adjust_replicas_branch_double ::
    "autoscaler \<Rightarrow> pyfloat \<times> pyfloat \<times> pyfloat \<Rightarrow> int \<Rightarrow> decision outcome" where
  "adjust_replicas_branch_double self metrics current_replicas =
     (case metrics of (current_latency, current_cpu, current_rps) \<Rightarrow>
        if float_gt current_latency (Finite (of_int (latency_threshold_ms self))) \<or>
           float_gt current_cpu (Finite (cpu_threshold self)) \<or>
           float_gt current_rps (Finite (of_int (rps_threshold self)))
        then (case float_of_int current_replicas of
                Raises \<Rightarrow> Raises
              | Returns n \<Rightarrow>
                  (case math_ceil (float_mul n
                          (float_add (Finite 1) (Finite (scale_out_factor self)))) of
                     Raises \<Rightarrow> Raises
                   | Returns new_replicas \<Rightarrow> Returns (ScaleOut new_replicas)))
        else (case float_of_int (latency_threshold_ms self) of
                Raises \<Rightarrow> Raises
              | Returns threshold \<Rightarrow>
                  if float_lt current_latency
                       (float_mul (Finite (float_value (69 / 100))) threshold) \<and>
                     float_lt current_cpu
                       (float_mul (Finite (float_value (69 / 100)))
                          (Finite (cpu_threshold self)))
                  then (case float_of_int current_replicas of
                          Raises \<Rightarrow> Raises
                        | Returns n \<Rightarrow>
                            (case math_floor (float_mul n
                                    (float_sub (Finite 1) (Finite (scale_in_factor self)))) of
                               Raises \<Rightarrow> Raises
                             | Returns k \<Rightarrow>
                                 Returns (ScaleIn (max (min_replicas self) k))))
                  else Returns NoChange))"

text \<open>
  The object \<open>__init__\<close> builds from the environment: \<open>int\<close> of the integer settings and
  \<open>float\<close> of the decimal ones, each the nearest double.
\<close>

definition environment_autoscaler ::
    "int \<Rightarrow> real \<Rightarrow> int \<Rightarrow> real \<Rightarrow> real \<Rightarrow> int \<Rightarrow> autoscaler" where
  "environment_autoscaler latency cpu rps out_factor in_factor minimum =
     \<lparr> latency_threshold_ms = latency, cpu_threshold = float_value cpu,
       rps_threshold = rps, scale_out_factor = float_value out_factor,
       scale_in_factor = float_value in_factor, min_replicas = minimum \<rparr>"

subsection \<open>Decide, apply, decide again\<close>

text \<open>
  The replica count in force after a decision has been carried out by a successful
  \<open>scale_deployment\<close>: the clamped \<open>new_replicas\<close> in the two scaling branches, the old
  count when nothing is done.
\<close>

definition applied_replicas :: "autoscaler \<Rightarrow> int \<Rightarrow> int \<Rightarrow> decision \<Rightarrow> int" where
  "applied_replicas self max_replicas current_replicas d =
     (case d of
        ScaleOut new_replicas \<Rightarrow> clamp_replicas self max_replicas new_replicas
      | ScaleIn new_replicas \<Rightarrow> clamp_replicas self max_replicas new_replicas
      | NoChange \<Rightarrow> current_replicas)"

datatype direction = Out | In | Stay

definition direction_of :: "decision \<Rightarrow> direction" where
  "direction_of d = (case d of ScaleOut _ \<Rightarrow> Out | ScaleIn _ \<Rightarrow> In | NoChange \<Rightarrow> Stay)"

subsection \<open>Concrete inputs\<close>

text \<open>A cluster holding one deployment with five replicas, and a Prometheus that reports a
  latency of 500 ms, half a CPU and 100 requests per second for every service.\<close>

definition demo_cluster :: apps_v1 where
  "demo_cluster =
     \<lparr> deployments =
         [(''admin-service'', ''default'') \<mapsto>
            \<lparr> spec_replicas = Some 5, status = Some (DeploymentStatus (Some 5)) \<rparr>],
       read_raises = False, patch_raises = False \<rparr>"


text \<open>A Prometheus whose latency query has no rows, one whose third query raises, and a
  cluster whose deployments have an unset and a zero \<open>status.replicas\<close>.\<close>

definition partial_prometheus :: prometheus where
  "partial_prometheus q =
     (case q of
        LatencyQuery _ \<Rightarrow> Returns []
      | CpuQuery _ \<Rightarrow> Returns [Returns (1 / 2)]
      | RpsQuery _ \<Rightarrow> Returns [Returns 100])"

definition failing_prometheus :: prometheus where
  "failing_prometheus q =
     (case q of
        LatencyQuery _ \<Rightarrow> Returns [Returns 500]
      | CpuQuery _ \<Rightarrow> Returns [Returns (1 / 2)]
      | RpsQuery _ \<Rightarrow> Raises)"

definition unpopulated_cluster :: apps_v1 where
  "unpopulated_cluster =
     \<lparr> deployments =
         [(''admin-service'', ''default'') \<mapsto>
            \<lparr> spec_replicas = Some 3, status = Some (DeploymentStatus None) \<rparr>,
          (''faculty-service'', ''default'') \<mapsto>
            \<lparr> spec_replicas = Some 0, status = Some (DeploymentStatus (Some 0)) \<rparr>],
       read_raises = False, patch_raises = False \<rparr>"

section \<open>Properties\<close>

subsection \<open>Facts about rounding\<close>

text \<open>
  \<open>binade\<close> is the binary exponent, \<open>round_double\<close> moves a value by at most half a unit
  in the last place, and an integer below \<open>2^53\<close> in magnitude converts to itself.
\<close>

lemma round_half_even_nearest:
  "\<bar>of_int (round_half_even y) - y\<bar> \<le> 1 / 2"
proof -
  have "of_int \<lfloor>y\<rfloor> \<le> y" "y < of_int \<lfloor>y\<rfloor> + 1" by linarith+
  then show ?thesis
    by (auto simp: round_half_even_def Let_def)
qed

lemma bit_length_bounds:
  "0 < n \<Longrightarrow> 2 ^ (bit_length n - 1) \<le> n \<and> n < 2 ^ bit_length n"
proof (induction n rule: bit_length.induct)
  case (1 n)
  show ?case
  proof (cases "n div 2 = 0")
    case True
    with "1.prems" have "n = 1" by (simp add: div_eq_0_iff) 
    then show ?thesis by (simp add: bit_length.simps)
  next
    case False
    then have pos: "0 < n div 2" by simp
    from "1.prems" have n0: "n \<noteq> 0" by simp
    from "1.IH" [OF n0 pos]
    have ih: "2 ^ (bit_length (n div 2) - 1) \<le> n div 2" "n div 2 < 2 ^ bit_length (n div 2)"
      by simp_all
    have k: "0 < bit_length (n div 2)"
      using pos by (subst bit_length.simps) simp
    have bl: "bit_length n = Suc (bit_length (n div 2))"
      using n0 by (subst bit_length.simps) simp
    obtain k' where k': "bit_length (n div 2) = Suc k'"
      using k by (cases "bit_length (n div 2)") simp_all
    from ih k' have "2 * 2 ^ k' \<le> 2 * (n div 2)" by simp
    also have "\<dots> \<le> n" by simp
    finally have lo: "2 ^ Suc k' \<le> n" by simp
    from ih(2) have "n div 2 + 1 \<le> 2 ^ bit_length (n div 2)" by simp
    then have "2 * (n div 2) + 2 \<le> 2 * 2 ^ bit_length (n div 2)" by simp
    moreover have "n \<le> 2 * (n div 2) + 1" by presburger
    ultimately have hi: "n < 2 * 2 ^ bit_length (n div 2)" by linarith
    from lo hi bl k' show ?thesis by simp
  qed
qed

lemma binade_bounds:
  assumes "x \<noteq> 0"
  shows "pow2 (binade x) \<le> \<bar>x\<bar> \<and> \<bar>x\<bar> < pow2 (binade x + 1)"
proof (cases "1 \<le> \<bar>x\<bar>")
  case True
  define n where "n = nat \<lfloor>\<bar>x\<bar>\<rfloor>"
  have fl: "1 \<le> \<lfloor>\<bar>x\<bar>\<rfloor>" using True by linarith
  then have npos: "0 < n" by (simp add: n_def)
  have nx: "real n \<le> \<bar>x\<bar>" "\<bar>x\<bar> < real n + 1"
    using fl by (simp_all add: n_def)
  from bit_length_bounds [OF npos]
  have b: "2 ^ (bit_length n - 1) \<le> n" "n < 2 ^ bit_length n" by simp_all
  have kpos: "0 < bit_length n" using npos by (subst bit_length.simps) simp
  have bin: "binade x = int (bit_length n) - 1"
    using True by (simp add: binade_def n_def)
  have "(2::real) ^ (bit_length n - 1) \<le> real n"
    using of_nat_mono [OF b(1), where 'a = real] by simp
  with nx have lo: "(2::real) ^ (bit_length n - 1) \<le> \<bar>x\<bar>" by linarith
  from b(2) have "n + 1 \<le> 2 ^ bit_length n" by simp
  from of_nat_mono [OF this, where 'a = real] have "real n + 1 \<le> 2 ^ bit_length n"
    by simp
  with nx have hi: "\<bar>x\<bar> < 2 ^ bit_length n" by linarith
  have e1: "pow2 (binade x) = 2 ^ (bit_length n - 1)"
    using kpos by (simp add: bin pow2_def nat_diff_distrib')
  have e2: "pow2 (binade x + 1) = 2 ^ bit_length n"
    by (simp add: bin pow2_def)
  from lo hi e1 e2 show ?thesis by simp
next
  case False
  define y where "y = 1 / \<bar>x\<bar>"
  define n where "n = nat (\<lceil>y\<rceil> - 1)"
  have xpos: "0 < \<bar>x\<bar>" using assms by simp
  have x1: "\<bar>x\<bar> < 1" using False by simp
  have y1: "1 < y" using xpos x1 by (simp add: y_def)
  then have c2: "2 \<le> \<lceil>y\<rceil>" by linarith
  then have npos: "0 < n" by (simp add: n_def)
  have ny: "real n < y" "y \<le> real n + 1"
  proof -
    have "real n = of_int \<lceil>y\<rceil> - 1" using c2 by (simp add: n_def)
    moreover have "of_int \<lceil>y\<rceil> - 1 < y" "y \<le> of_int \<lceil>y\<rceil>" by linarith+
    ultimately show "real n < y" "y \<le> real n + 1" by simp_all
  qed
  from bit_length_bounds [OF npos]
  have b: "2 ^ (bit_length n - 1) \<le> n" "n < 2 ^ bit_length n" by simp_all
  have kpos: "0 < bit_length n" using npos by (subst bit_length.simps) simp
  have bin: "binade x = - int (bit_length n)"
    using False by (simp add: binade_def n_def y_def)
  have "(2::real) ^ (bit_length n - 1) \<le> real n"
    using of_nat_mono [OF b(1), where 'a = real] by simp
  with ny have lo: "(2::real) ^ (bit_length n - 1) < y" by linarith
  from b(2) have "n + 1 \<le> 2 ^ bit_length n" by simp
  from of_nat_mono [OF this, where 'a = real] have "real n + 1 \<le> 2 ^ bit_length n"
    by simp
  with ny have hi: "y \<le> 2 ^ bit_length n" by linarith
  have xy: "\<bar>x\<bar> = 1 / y" using xpos by (simp add: y_def)
  have p1: "1 / 2 ^ bit_length n \<le> \<bar>x\<bar>"
    unfolding xy using hi y1 by (simp add: frac_le)
  have p2: "\<bar>x\<bar> < 1 / 2 ^ (bit_length n - 1)"
    unfolding xy using lo by (simp add: frac_less2)
  have e1: "pow2 (binade x) = 1 / 2 ^ bit_length n"
    using kpos by (simp add: bin pow2_def)
  have e2: "pow2 (binade x + 1) = 1 / 2 ^ (bit_length n - 1)"
  proof (cases "bit_length n = 1")
    case True
    then show ?thesis by (simp add: bin pow2_def)
  next
    case False
    with kpos have "1 < bit_length n" by simp
    then have "nat (int (bit_length n) - 1) = bit_length n - 1" by simp
    with \<open>1 < bit_length n\<close> show ?thesis by (simp add: bin pow2_def)
  qed
  from p1 p2 e1 e2 show ?thesis by simp
qed

lemma pow2_pos: "0 < pow2 e"
  by (simp add: pow2_def)

lemma round_double_error:
  assumes "round_double x = Finite r"
  shows "\<bar>r - x\<bar> \<le> pow2 (max (binade x) (- 1022) - 52) / 2"
proof (cases "x = 0")
  case True
  with assms show ?thesis using pow2_pos [of "max (binade 0) (- 1022) - 52"]
    by (simp add: round_double_def)
next
  case False
  define e where "e = max (binade x) (- 1022) - 52"
  define m where "m = round_half_even (x / pow2 e)"
  from assms False have r: "r = of_int m * pow2 e"
    by (simp add: round_double_def Let_def e_def m_def split: if_splits)
  have "\<bar>of_int m - x / pow2 e\<bar> \<le> 1 / 2"
    unfolding m_def by (rule round_half_even_nearest)
  then have "\<bar>of_int m - x / pow2 e\<bar> * pow2 e \<le> (1 / 2) * pow2 e"
    using pow2_pos [of e] by (simp add: mult_right_mono)
  moreover have "\<bar>of_int m - x / pow2 e\<bar> * pow2 e = \<bar>of_int m * pow2 e - x\<bar>"
  proof -
    have "\<bar>of_int m - x / pow2 e\<bar> * pow2 e = \<bar>(of_int m - x / pow2 e) * pow2 e\<bar>"
      using pow2_pos [of e] by (simp add: abs_mult)
    also have "(of_int m - x / pow2 e) * pow2 e = of_int m * pow2 e - x"
      using pow2_pos [of e] by (simp add: algebra_simps)
    finally show ?thesis .
  qed
  ultimately show ?thesis by (simp add: r e_def)
qed

lemma bit_length_pos: "0 < n \<Longrightarrow> 0 < bit_length n"
  by (subst bit_length.simps) simp

lemma round_half_even_of_int: "round_half_even (of_int k) = k"
  by (simp add: round_half_even_def)

lemma round_double_of_int:
  assumes "\<bar>n\<bar> < 2 ^ 53"
  shows "round_double (of_int n) = Finite (of_int n)"
proof (cases "n = 0")
  case True
  then show ?thesis by (simp add: round_double_def)
next
  case False
  define x :: real where "x = of_int n"
  define b where "b = binade x"
  have x0: "x \<noteq> 0" using False by (simp add: x_def)
  have x1: "1 \<le> \<bar>x\<bar>"
  proof -
    from False have "1 \<le> \<bar>n\<bar>" by simp
    then have "(1::real) \<le> of_int \<bar>n\<bar>" by (metis of_int_1 of_int_le_iff)
    then show ?thesis by (simp add: x_def)
  qed
  have xlt: "\<bar>x\<bar> < 2 ^ 53"
  proof -
    from assms have "(of_int \<bar>n\<bar> :: real) < of_int (2 ^ 53)" by (simp only: of_int_less_iff)
    then show ?thesis by (simp add: x_def)
  qed
  have b0: "0 \<le> b"
  proof -
    have "1 \<le> \<lfloor>\<bar>x\<bar>\<rfloor>" using x1 by linarith
    then have "0 < nat \<lfloor>\<bar>x\<bar>\<rfloor>" by simp
    from bit_length_pos [OF this] x1 show ?thesis by (simp add: b_def binade_def)
  qed
  from binade_bounds [OF x0] have lo: "pow2 b \<le> \<bar>x\<bar>" by (simp add: b_def)
  have b52: "b \<le> 52"
  proof (rule ccontr)
    assume "\<not> b \<le> 52"
    then have "53 \<le> nat b" by simp
    then have "(2::real) ^ 53 \<le> 2 ^ nat b" by (intro power_increasing) simp_all
    with b0 have "(2::real) ^ 53 \<le> pow2 b" by (simp add: pow2_def)
    with lo xlt show False by linarith
  qed
  define s where "s = nat (52 - b)"
  define e where "e = max b (- 1022) - 52"
  have e: "e = - int s" using b0 b52 by (simp add: e_def s_def)
  have pe: "pow2 e = 1 / 2 ^ s"
  proof (cases "s = 0")
    case True
    then show ?thesis by (simp add: e pow2_def)
  next
    case False
    then show ?thesis by (simp add: e pow2_def)
  qed
  have q: "x / pow2 e = of_int (n * 2 ^ s)"
    by (simp add: pe x_def)
  have m: "round_half_even (x / pow2 e) = n * 2 ^ s"
    unfolding q by (rule round_half_even_of_int)
  have r: "of_int (round_half_even (x / pow2 e)) * pow2 e = x"
    unfolding m by (simp add: pe x_def)
  have big: "(2::real) ^ 53 \<le> pow2 1024"
  proof -
    have "(2::real) ^ 53 \<le> 2 ^ 1024" by (intro power_increasing) simp_all
    then show ?thesis by (simp add: pow2_def)
  qed
  have no: "\<not> pow2 1024 \<le> \<bar>x\<bar>" using big xlt by linarith
  have "round_double x = Finite x"
    using x0 r no by (simp add: round_double_def Let_def e_def b_def)
  then show ?thesis by (simp add: x_def)
qed

lemma float_of_int_exact:
  "\<bar>n\<bar> < 2 ^ 53 \<Longrightarrow> float_of_int n = Returns (Finite (of_int n))"
  by (simp add: float_of_int_def round_double_of_int)

subsection \<open>Auxiliary facts\<close>

lemma ceiling_scale_out_ge:
  fixes f :: real
  assumes "0 \<le> n" and "0 \<le> f"
  shows "n \<le> \<lceil>of_int n * (1 + f)\<rceil>"
proof -
  have "0 \<le> of_int n * f" using assms by simp
  then have "(of_int n :: real) \<le> of_int n * (1 + f)" by (simp add: algebra_simps)
  then show ?thesis by (simp add: le_ceiling_iff)
qed

lemma clamp_replicas_bounds:
  "min_replicas self \<le> m \<Longrightarrow>
     min_replicas self \<le> clamp_replicas self m r \<and> clamp_replicas self m r \<le> m"
  by (simp add: clamp_replicas_def)

lemma scale_deployment_cases:
  assumes "scale_deployment self (Returns m) api name r ns = (ok, api')"
  shows "(\<not> ok \<and> api' = api) \<or>
         (ok \<and> (\<exists>d. deployments api (name, ns) = Some d \<and>
            api' = api\<lparr>deployments := (deployments api)((name, ns) \<mapsto>
                     d\<lparr>spec_replicas := Some (clamp_replicas self m r)\<rparr>)\<rparr>))"
  using assms
  by (auto simp: scale_deployment_def read_namespaced_deployment_def
        patch_namespaced_deployment_def Let_def
      split: outcome.splits option.splits if_splits)


lemmas float_eval = round_double_def binade_def bit_length.simps pow2_def round_half_even_def
  Let_def float_value_def float_of_int_def float_gt_def float_sub_def math_ceil_def
  math_floor_def adjust_replicas_branch_double_def environment_autoscaler_def

lemma double_five_replicas:
  "adjust_replicas_branch_double (environment_autoscaler 300 (7 / 10) 200 (2 / 10) (15 / 100) 2)
     (Finite 500, Finite (1 / 2), Finite 100) 5 = Returns (ScaleOut 6)"
  by (simp add: float_eval)

lemma double_ten_replicas:
  "adjust_replicas_branch_double (environment_autoscaler 300 (7 / 10) 200 (2 / 10) (15 / 100) 2)
     (Finite 100, Finite (float_value (3 / 10)), Finite 100) 10 = Returns (ScaleIn 8)"
  by (simp add: float_eval)

lemma double_dead_zone:
  "adjust_replicas_branch_double (environment_autoscaler 300 (7 / 10) 200 (2 / 10) (15 / 100) 2)
     (Finite 250, Finite (float_value (6 / 10)), Finite 150) 5 = Returns NoChange"
  by (simp add: float_eval)

lemma double_fifty_replicas:
  "adjust_replicas_branch_double (environment_autoscaler 300 (7 / 10) 200 (1 / 10) (15 / 100) 2)
     (Finite 500, Finite (1 / 2), Finite 100) 50 = Returns (ScaleOut 56)"
  by (simp add: float_eval)

lemma double_twenty_replicas:
  "adjust_replicas_branch_double (environment_autoscaler 300 (7 / 10) 200 (2 / 10) (8 / 10) 2)
     (Finite 100, Finite (float_value (3 / 10)), Finite 100) 20 = Returns (ScaleIn 3)"
  by (simp add: float_eval)

lemma double_boundary_latency:
  "adjust_replicas_branch_double (environment_autoscaler 300 (7 / 10) 200 (2 / 10) (15 / 100) 2)
     (Finite (7283165022388223 / 35184372088832), Finite 0, Finite 0) 10 = Returns NoChange"
  by (simp add: float_eval)

lemma double_one_replica:
  "adjust_replicas_branch_double (environment_autoscaler 300 (7 / 10) 200 (2 / 10) (15 / 100) 2)
     (Finite 100, Finite (float_value (3 / 10)), Finite 100) 1 = Returns (ScaleIn 2)"
  by (simp add: float_eval)

lemma no_breach_not_low_no_change:
  assumes "latency_ms \<le> of_int (latency_threshold_ms self)"
      and "cpu_fraction \<le> cpu_threshold self"
      and "rps \<le> of_int (rps_threshold self)"
      and "(69 / 100) * of_int (latency_threshold_ms self) \<le> latency_ms \<or>
           (69 / 100) * cpu_threshold self \<le> cpu_fraction"
  shows "adjust_replicas_branch self (latency_ms, cpu_fraction, rps) current_replicas = NoChange"
  using assms by (auto simp: adjust_replicas_branch_def)

lemma direction_independent_of_replicas:
  "direction_of (adjust_replicas_branch self metrics n) =
   direction_of (adjust_replicas_branch self metrics n')"
  by (cases metrics) (simp add: adjust_replicas_branch_def direction_of_def)


lemma unpopulated_reads:
  "read_namespaced_deployment unpopulated_cluster ''admin-service'' ''default''
     = Returns \<lparr> spec_replicas = Some 3, status = Some (DeploymentStatus None) \<rparr>"
  "read_namespaced_deployment unpopulated_cluster ''faculty-service'' ''default''
     = Returns \<lparr> spec_replicas = Some 0, status = Some (DeploymentStatus (Some 0)) \<rparr>"
  "read_namespaced_deployment unpopulated_cluster ''student-service'' ''default'' = Raises"
  by (simp_all add: read_namespaced_deployment_def unpopulated_cluster_def)

subsection \<open>The order of the branches\<close>

text \<open>
  Claim C1, as amended. For every metrics snapshot, replica count and configuration the
  branches are tried in this order, the first match winning, and every sum and product is
  a double operation. Scale-out when latency, CPU or request rate exceeds its threshold:
  the value handed on is \<open>ceil(current_replicas * (1 + scale_out_factor))\<close>. Otherwise
  scale-in when the latency is below \<open>0.69 * latency_threshold_ms\<close> and the CPU below
  \<open>0.69 * cpu_threshold\<close>: the candidate is
  \<open>floor(current_replicas * (1 - scale_in_factor))\<close> and the value handed on is the larger
  of \<open>min_replicas\<close> and the candidate. Otherwise nothing is done. A branch raises,
  instead of deciding, when its product is infinite or NaN or an integer operand is too
  large for a double.
\<close>

theorem adjust_replicas_branch_double_order:
  "adjust_replicas_branch_double self (latency_ms, cpu_fraction, rps) current_replicas =
     (if float_gt latency_ms (Finite (of_int (latency_threshold_ms self))) \<or>
         float_gt cpu_fraction (Finite (cpu_threshold self)) \<or>
         float_gt rps (Finite (of_int (rps_threshold self)))
      then (case float_of_int current_replicas of
              Raises \<Rightarrow> Raises
            | Returns n \<Rightarrow>
                (case math_ceil (float_mul n
                        (float_add (Finite 1) (Finite (scale_out_factor self)))) of
                   Raises \<Rightarrow> Raises
                 | Returns candidate \<Rightarrow> Returns (ScaleOut candidate)))
      else (case float_of_int (latency_threshold_ms self) of
              Raises \<Rightarrow> Raises
            | Returns threshold \<Rightarrow>
                if float_lt latency_ms (float_mul (Finite (float_value (69 / 100))) threshold) \<and>
                   float_lt cpu_fraction
                     (float_mul (Finite (float_value (69 / 100))) (Finite (cpu_threshold self)))
                then (case float_of_int current_replicas of
                        Raises \<Rightarrow> Raises
                      | Returns n \<Rightarrow>
                          (case math_floor (float_mul n
                                  (float_sub (Finite 1) (Finite (scale_in_factor self)))) of
                             Raises \<Rightarrow> Raises
                           | Returns candidate \<Rightarrow>
                               Returns (ScaleIn (max (min_replicas self) candidate))))
                else Returns NoChange))"
  by (simp add: adjust_replicas_branch_double_def)

text \<open>
  The scenarios of the specification under the default configuration: 500 ms with five
  replicas scales out to six, 100 ms and 0.3 CPU with ten replicas scales in to eight, and
  250 ms, 0.6 CPU and 150 requests per second do nothing.
\<close>

theorem adjust_replicas_branch_double_order_witness:
  "adjust_replicas_branch_double (environment_autoscaler 300 (7 / 10) 200 (2 / 10) (15 / 100) 2)
     (Finite 500, Finite (1 / 2), Finite 100) 5 = Returns (ScaleOut 6) \<and>
   adjust_replicas_branch_double (environment_autoscaler 300 (7 / 10) 200 (2 / 10) (15 / 100) 2)
     (Finite 100, Finite (float_value (3 / 10)), Finite 100) 10 = Returns (ScaleIn 8) \<and>
   adjust_replicas_branch_double (environment_autoscaler 300 (7 / 10) 200 (2 / 10) (15 / 100) 2)
     (Finite 250, Finite (float_value (6 / 10)), Finite 150) 5 = Returns NoChange"
  using adjust_replicas_branch_double_order
          [of "environment_autoscaler 300 (7 / 10) 200 (2 / 10) (15 / 100) 2"
              "Finite 500" "Finite (1 / 2)" "Finite 100" 5]
        adjust_replicas_branch_double_order
          [of "environment_autoscaler 300 (7 / 10) 200 (2 / 10) (15 / 100) 2"
              "Finite 100" "Finite (float_value (3 / 10))" "Finite 100" 10]
        adjust_replicas_branch_double_order
          [of "environment_autoscaler 300 (7 / 10) 200 (2 / 10) (15 / 100) 2"
              "Finite 250" "Finite (float_value (6 / 10))" "Finite 150" 5]
  by (simp only: double_five_replicas double_ten_replicas double_dead_zone simp_thms)

text \<open>
  Claim C1 as stated fails, in two ways. Read as exact arithmetic, its formulas are not
  what the code computes: with \<open>SCALE_OUT_FACTOR=0.1\<close> and 50 replicas a breach hands on
  56, not \<open>ceil(55) = 55\<close>; with \<open>SCALE_IN_FACTOR=0.8\<close> and 20 replicas the scale-in
  candidate is 3, not \<open>floor(4) = 4\<close>; and a latency of 206.99999999999997 ms, which is
  below \<open>0.69 * 300 = 207\<close>, does not scale in, because the double product \<open>0.69 * 300\<close>
  is that same number. And the scale-in decision does not carry the candidate: with one
  replica the candidate is \<open>floor(0.85) = 0\<close> and the value handed on is
  \<open>min_replicas = 2\<close>.
\<close>

theorem exact_formula_differs:
  "adjust_replicas_branch_double (environment_autoscaler 300 (7 / 10) 200 (1 / 10) (15 / 100) 2)
     (Finite 500, Finite (1 / 2), Finite 100) 50 = Returns (ScaleOut 56) \<and>
   \<lceil>real_of_int 50 * (1 + 1 / 10)\<rceil> = 55 \<and>
   adjust_replicas_branch_double (environment_autoscaler 300 (7 / 10) 200 (2 / 10) (8 / 10) 2)
     (Finite 100, Finite (float_value (3 / 10)), Finite 100) 20 = Returns (ScaleIn 3) \<and>
   \<lfloor>real_of_int 20 * (1 - 8 / 10)\<rfloor> = 4 \<and>
   adjust_replicas_branch_double (environment_autoscaler 300 (7 / 10) 200 (2 / 10) (15 / 100) 2)
     (Finite (7283165022388223 / 35184372088832), Finite 0, Finite 0) 10 = Returns NoChange \<and>
   (7283165022388223 / 35184372088832 :: real) < (69 / 100) * real_of_int 300 \<and>
   adjust_replicas_branch_double (environment_autoscaler 300 (7 / 10) 200 (2 / 10) (15 / 100) 2)
     (Finite 100, Finite (float_value (3 / 10)), Finite 100) 1 = Returns (ScaleIn 2) \<and>
   \<lfloor>real_of_int 1 * (1 - 15 / 100)\<rfloor> = 0"
proof -
  have exact_out: "\<lceil>real_of_int 50 * (1 + 1 / 10)\<rceil> = 55"
    by simp
  have exact_in: "\<lfloor>real_of_int 20 * (1 - 8 / 10)\<rfloor> = 4"
    by simp
  have exact_bound: "(7283165022388223 / 35184372088832 :: real) < (69 / 100) * real_of_int 300"
    by simp
  have exact_one: "\<lfloor>real_of_int 1 * (1 - 15 / 100)\<rfloor> = 0"
    by simp
  show ?thesis
    by (intro conjI)
       (rule double_fifty_replicas exact_out double_twenty_replicas exact_in
          double_boundary_latency exact_bound double_one_replica exact_one)+
qed

subsection \<open>Clamping in the actuator\<close>

text \<open>
  Claim C2. When \<open>min_replicas \<le> MAX_REPLICAS\<close>, a call of \<open>scale_deployment\<close> with
  any requested count, negative or huge, either reports success and has stored a
  \<open>spec.replicas\<close> inside \<open>[min_replicas, MAX_REPLICAS]\<close>, or reports failure and has
  stored nothing.
\<close>

theorem scale_deployment_within_bounds:
  assumes "min_replicas self \<le> max_replicas"
      and "scale_deployment self (Returns max_replicas) api deployment_name replicas namespace
             = (ok, api')"
  shows "if ok
         then \<exists>d r. deployments api' (deployment_name, namespace) = Some d \<and>
                spec_replicas d = Some r \<and> min_replicas self \<le> r \<and> r \<le> max_replicas
         else api' = api"
proof -
  from scale_deployment_cases [OF assms(2)] show ?thesis
  proof
    assume "\<not> ok \<and> api' = api"
    then show ?thesis by simp
  next
    assume h: "ok \<and> (\<exists>d. deployments api (deployment_name, namespace) = Some d \<and>
            api' = api\<lparr>deployments := (deployments api)((deployment_name, namespace) \<mapsto>
                     d\<lparr>spec_replicas := Some (clamp_replicas self max_replicas replicas)\<rparr>)\<rparr>)"
    then obtain d where
      "api' = api\<lparr>deployments := (deployments api)((deployment_name, namespace) \<mapsto>
                     d\<lparr>spec_replicas := Some (clamp_replicas self max_replicas replicas)\<rparr>)\<rparr>"
      by blast
    with h clamp_replicas_bounds [OF assms(1), of replicas] show ?thesis by simp
  qed
qed

text \<open>A request for 1000 replicas is stored as 50.\<close>

theorem scale_deployment_within_bounds_witness:
  "min_replicas default_autoscaler \<le> 50 \<and>
   scale_deployment default_autoscaler (Returns 50) demo_cluster ''admin-service'' 1000 ''default''
     = (True, demo_cluster\<lparr>deployments := (deployments demo_cluster)((''admin-service'', ''default'') \<mapsto>
           \<lparr> spec_replicas = Some 50, status = Some (DeploymentStatus (Some 5)) \<rparr>)\<rparr>) \<and>
   (\<exists>d r. deployments (snd (scale_deployment default_autoscaler (Returns 50) demo_cluster
                ''admin-service'' 1000 ''default'')) (''admin-service'', ''default'') = Some d \<and>
      spec_replicas d = Some r \<and> min_replicas default_autoscaler \<le> r \<and> r \<le> 50)"
proof -
  have m: "min_replicas default_autoscaler \<le> 50"
    by (simp add: default_autoscaler_def)
  have e: "scale_deployment default_autoscaler (Returns 50) demo_cluster ''admin-service'' 1000 ''default''
     = (True, demo_cluster\<lparr>deployments := (deployments demo_cluster)((''admin-service'', ''default'') \<mapsto>
           \<lparr> spec_replicas = Some 50, status = Some (DeploymentStatus (Some 5)) \<rparr>)\<rparr>)"
    by (simp add: scale_deployment_def read_namespaced_deployment_def
          patch_namespaced_deployment_def clamp_replicas_def default_autoscaler_def
          demo_cluster_def)
  from scale_deployment_within_bounds [OF m e] m e show ?thesis by simp
qed

subsection \<open>All-zero metrics\<close>



subsection \<open>The dead zone\<close>

text \<open>
  Claim C4. When latency, CPU and request rate each lie strictly between 0.69 times their
  threshold and the threshold, nothing is done, whatever the replica count and the
  configuration. (\<open>no_breach_not_low_no_change\<close> shows that one of latency and CPU at or
  above 0.69 times its threshold is enough, as long as no threshold is exceeded.)
\<close>

theorem hysteresis_dead_zone:
  assumes "(69 / 100) * of_int (latency_threshold_ms self) < latency_ms"
      and "latency_ms < of_int (latency_threshold_ms self)"
      and "(69 / 100) * cpu_threshold self < cpu_fraction"
      and "cpu_fraction < cpu_threshold self"
      and "(69 / 100) * of_int (rps_threshold self) < rps"
      and "rps < of_int (rps_threshold self)"
  shows "adjust_replicas_branch self (latency_ms, cpu_fraction, rps) current_replicas = NoChange"
  using assms by (intro no_breach_not_low_no_change) simp_all

text \<open>The third end-to-end scenario: 250 ms, 0.6 and 150 against 300, 0.7 and 200.\<close>

theorem hysteresis_dead_zone_witness:
  "(69 / 100) * of_int (latency_threshold_ms default_autoscaler) < (250 :: real) \<and>
   (250 :: real) < of_int (latency_threshold_ms default_autoscaler) \<and>
   (69 / 100) * cpu_threshold default_autoscaler < 6 / 10 \<and>
   6 / 10 < cpu_threshold default_autoscaler \<and>
   (69 / 100) * of_int (rps_threshold default_autoscaler) < (150 :: real) \<and>
   (150 :: real) < of_int (rps_threshold default_autoscaler) \<and>
   adjust_replicas_branch default_autoscaler (250, 6 / 10, 150) 5 = NoChange"
  using hysteresis_dead_zone [of default_autoscaler 250 "6 / 10" 150 5]
  by (simp add: default_autoscaler_def)

subsection \<open>Deciding twice on the same metrics\<close>

text \<open>
  Claim C5, as amended. The branch depends on the metrics and the thresholds only, not on
  the replica count. So after a decision has been applied, a second decision on the same
  metrics takes the same branch as the first: it does nothing exactly when the first did
  nothing, a scale-out is followed by a scale-out and a scale-in by a scale-in.
\<close>

theorem second_decision_same_direction:
  "direction_of (adjust_replicas_branch self metrics
       (applied_replicas self max_replicas current_replicas
          (adjust_replicas_branch self metrics current_replicas))) =
   direction_of (adjust_replicas_branch self metrics current_replicas) \<and>
   (adjust_replicas_branch self metrics
       (applied_replicas self max_replicas current_replicas
          (adjust_replicas_branch self metrics current_replicas)) = NoChange
    \<longleftrightarrow> adjust_replicas_branch self metrics current_replicas = NoChange)"
proof -
  let ?d1 = "adjust_replicas_branch self metrics current_replicas"
  let ?d2 = "adjust_replicas_branch self metrics
               (applied_replicas self max_replicas current_replicas ?d1)"
  have eq: "direction_of ?d2 = direction_of ?d1"
    by (rule direction_independent_of_replicas)
  have stay: "\<And>d. d = NoChange \<longleftrightarrow> direction_of d = Stay"
    by (simp add: direction_of_def split: decision.splits)
  from eq stay [of ?d1] stay [of ?d2] show ?thesis by simp
qed

theorem second_decision_same_direction_witness:
  "direction_of (adjust_replicas_branch default_autoscaler (500, 1 / 2, 100)
       (applied_replicas default_autoscaler 50 5
          (adjust_replicas_branch default_autoscaler (500, 1 / 2, 100) 5))) = Out \<and>
   direction_of (adjust_replicas_branch default_autoscaler (250, 6 / 10, 150)
       (applied_replicas default_autoscaler 50 5
          (adjust_replicas_branch default_autoscaler (250, 6 / 10, 150) 5))) = Stay"
  using second_decision_same_direction [of default_autoscaler "(500, 1 / 2, 100)" 50 5]
        second_decision_same_direction [of default_autoscaler "(250, 6 / 10, 150)" 50 5]
  by (simp add: adjust_replicas_branch_def direction_of_def default_autoscaler_def)

text \<open>
  Claim C5 as stated fails. With the default configuration, 500 ms of latency and five
  replicas, the first decision scales out to six; six is applied; the second decision on
  the same metrics scales out again, to eight.
\<close>

theorem second_decision_scales_again:
  "adjust_replicas_branch default_autoscaler (500, 1 / 2, 100) 5 = ScaleOut 6 \<and>
   applied_replicas default_autoscaler 50 5 (ScaleOut 6) = 6 \<and>
   adjust_replicas_branch default_autoscaler (500, 1 / 2, 100) 6 = ScaleOut 8 \<and>
   adjust_replicas_branch default_autoscaler (500, 1 / 2, 100)
     (applied_replicas default_autoscaler 50 5
        (adjust_replicas_branch default_autoscaler (500, 1 / 2, 100) 5)) \<noteq> NoChange"
  by (simp add: adjust_replicas_branch_def applied_replicas_def clamp_replicas_def
        default_autoscaler_def)

subsection \<open>A latency breach\<close>

text \<open>
  Claim C6, as amended. When the latency exceeds its threshold, the current replica count
  is between 0 and \<open>MAX_REPLICAS\<close>, and \<open>scale_out_factor\<close> is not negative, the
  decision is a scale-out whose target, after the clamp of the actuator, is at least the
  current replica count.
\<close>

theorem latency_breach_never_shrinks:
  assumes "latency_ms > of_int (latency_threshold_ms self)"
      and "0 \<le> current_replicas" and "current_replicas \<le> max_replicas"
      and "0 \<le> scale_out_factor self"
  shows "\<exists>k. adjust_replicas_branch self (latency_ms, cpu_fraction, rps) current_replicas
               = ScaleOut k \<and>
             current_replicas \<le> clamp_replicas self max_replicas k \<and>
             current_replicas \<le> applied_replicas self max_replicas current_replicas
               (adjust_replicas_branch self (latency_ms, cpu_fraction, rps) current_replicas)"
proof -
  let ?k = "\<lceil>of_int current_replicas * (1 + scale_out_factor self)\<rceil>"
  have d: "adjust_replicas_branch self (latency_ms, cpu_fraction, rps) current_replicas
             = ScaleOut ?k"
    using assms(1) by (simp add: adjust_replicas_branch_def)
  have "current_replicas \<le> ?k"
    using assms(2,4) by (rule ceiling_scale_out_ge)
  then have "current_replicas \<le> clamp_replicas self max_replicas ?k"
    using assms(3) by (simp add: clamp_replicas_def)
  with d show ?thesis by (simp add: applied_replicas_def)
qed

theorem latency_breach_never_shrinks_witness:
  "(500 :: real) > of_int (latency_threshold_ms default_autoscaler) \<and> (0 :: int) \<le> 5 \<and>
   (5 :: int) \<le> 50 \<and> 0 \<le> scale_out_factor default_autoscaler \<and>
   adjust_replicas_branch default_autoscaler (500, 1 / 2, 100) 5 = ScaleOut 6 \<and>
   5 \<le> clamp_replicas default_autoscaler 50 6"
  using latency_breach_never_shrinks [of default_autoscaler 500 5 50 "1 / 2" 100]
  by (simp add: adjust_replicas_branch_def clamp_replicas_def default_autoscaler_def)

text \<open>
  Claim C6 as stated fails for a fleet already above \<open>MAX_REPLICAS\<close>: with the default
  configuration and 100 replicas, a latency of 500 ms gives the candidate 120, which the
  actuator clamps to 50.
\<close>

theorem breach_shrinks_above_max:
  "adjust_replicas_branch default_autoscaler (500, 1 / 2, 100) 100 = ScaleOut 120 \<and>
   clamp_replicas default_autoscaler 50 120 = 50 \<and>
   \<not> (100 \<le> applied_replicas default_autoscaler 50 100
                 (adjust_replicas_branch default_autoscaler (500, 1 / 2, 100) 100))"
  by (simp add: adjust_replicas_branch_def applied_replicas_def clamp_replicas_def
        default_autoscaler_def)

subsection \<open>Where the clamp is applied\<close>




subsection \<open>Failures of the metrics source\<close>

text \<open>
  Claim C8, as amended. \<open>get_metrics_from_prometheus\<close> returns \<open>(0, 0, 0)\<close> when any
  of the three queries raises, when anything else in the \<open>try\<close> block raises (a
  malformed first row), and when all three results are empty. An empty result of one
  query puts 0 in that dimension only: every dimension is 0 when its result is empty and
  the value of its first row otherwise. The function returns a snapshot in every case.
\<close>

theorem get_metrics_fail_safe:
  "(prom (LatencyQuery service_name) = Raises \<or> prom (CpuQuery service_name) = Raises \<or>
    prom (RpsQuery service_name) = Raises \<longrightarrow>
      get_metrics_from_prometheus prom service_name = (0, 0, 0)) \<and>
   (get_metrics_try prom service_name = Raises \<longrightarrow>
      get_metrics_from_prometheus prom service_name = (0, 0, 0)) \<and>
   (prom (LatencyQuery service_name) = Returns [] \<and> prom (CpuQuery service_name) = Returns [] \<and>
    prom (RpsQuery service_name) = Returns [] \<longrightarrow>
      get_metrics_from_prometheus prom service_name = (0, 0, 0)) \<and>
   (prom (LatencyQuery service_name) = Returns ls \<and> prom (CpuQuery service_name) = Returns cs \<and>
    prom (RpsQuery service_name) = Returns rs \<and>
    (case ls of [] \<Rightarrow> Returns 0 | x # _ \<Rightarrow> x) = Returns l \<and>
    (case cs of [] \<Rightarrow> Returns 0 | x # _ \<Rightarrow> x) = Returns c \<and>
    (case rs of [] \<Rightarrow> Returns 0 | x # _ \<Rightarrow> x) = Returns r \<longrightarrow>
      get_metrics_from_prometheus prom service_name = (l, c, r))"
  by (auto simp: get_metrics_from_prometheus_def get_metrics_try_def query_value_def
      split: outcome.splits)

theorem get_metrics_fail_safe_witness:
  "failing_prometheus (RpsQuery ''admin-service'') = Raises \<and>
   get_metrics_from_prometheus failing_prometheus ''admin-service'' = (0, 0, 0) \<and>
   partial_prometheus (LatencyQuery ''admin-service'') = Returns [] \<and>
   partial_prometheus (CpuQuery ''admin-service'') = Returns [Returns (1 / 2)] \<and>
   partial_prometheus (RpsQuery ''admin-service'') = Returns [Returns 100] \<and>
   get_metrics_from_prometheus partial_prometheus ''admin-service'' = (0, 1 / 2, 100)"
  using get_metrics_fail_safe [of failing_prometheus "''admin-service''"]
        get_metrics_fail_safe [of partial_prometheus "''admin-service''" "[]"
          "[Returns (1 / 2)]" "[Returns 100]" 0 "1 / 2" 100]
  by (simp add: failing_prometheus_def partial_prometheus_def)

text \<open>
  Claim C8 as stated fails for a single empty result: when only the latency query has no
  rows, the snapshot is \<open>(0, 0.5, 100)\<close>, not all-zero.
\<close>

theorem empty_latency_result_not_all_zero:
  "partial_prometheus (LatencyQuery ''admin-service'') = Returns [] \<and>
   get_metrics_from_prometheus partial_prometheus ''admin-service'' = (0, 1 / 2, 100) \<and>
   get_metrics_from_prometheus partial_prometheus ''admin-service'' \<noteq> (0, 0, 0)"
  by (simp add: get_metrics_from_prometheus_def get_metrics_try_def query_value_def
        partial_prometheus_def)

subsection \<open>Reading the replica count\<close>

text \<open>
  Claim C9. \<open>get_current_replicas\<close> is 0 when the read raises, and also when the read
  succeeds and \<open>status.replicas\<close> is unset or zero.
\<close>

theorem get_current_replicas_zero:
  "(read_namespaced_deployment api deployment_name namespace = Raises \<longrightarrow>
      get_current_replicas api deployment_name namespace = 0) \<and>
   (read_namespaced_deployment api deployment_name namespace = Returns d \<and>
    status d = Some (DeploymentStatus None) \<longrightarrow>
      get_current_replicas api deployment_name namespace = 0) \<and>
   (read_namespaced_deployment api deployment_name namespace = Returns d \<and>
    status d = Some (DeploymentStatus (Some 0)) \<longrightarrow>
      get_current_replicas api deployment_name namespace = 0)"
  by (simp add: get_current_replicas_def)

theorem get_current_replicas_zero_witness:
  "read_namespaced_deployment unpopulated_cluster ''student-service'' ''default'' = Raises \<and>
   get_current_replicas unpopulated_cluster ''student-service'' ''default'' = 0 \<and>
   read_namespaced_deployment unpopulated_cluster ''admin-service'' ''default''
     = Returns \<lparr> spec_replicas = Some 3, status = Some (DeploymentStatus None) \<rparr> \<and>
   get_current_replicas unpopulated_cluster ''admin-service'' ''default'' = 0 \<and>
   read_namespaced_deployment unpopulated_cluster ''faculty-service'' ''default''
     = Returns \<lparr> spec_replicas = Some 0, status = Some (DeploymentStatus (Some 0)) \<rparr> \<and>
   get_current_replicas unpopulated_cluster ''faculty-service'' ''default'' = 0"
  using get_current_replicas_zero [of unpopulated_cluster "''student-service''" "''default''"]
        get_current_replicas_zero [of unpopulated_cluster "''admin-service''" "''default''"
          "\<lparr> spec_replicas = Some 3, status = Some (DeploymentStatus None) \<rparr>"]
        get_current_replicas_zero [of unpopulated_cluster "''faculty-service''" "''default''"
          "\<lparr> spec_replicas = Some 0, status = Some (DeploymentStatus (Some 0)) \<rparr>"]
  by (simp add: unpopulated_reads)

subsection \<open>Scale-in below the minimum\<close>



end
